theory Spec2Isabelle
  imports Complex_Main "HOL-Library.Multiset"
begin

section \<open>Strings and numbers of the host language\<close>

text \<open>
  The console is a React application written in TypeScript. Its strings are modelled
  as \<open>string\<close> (identifiers and URLs of the backend are ASCII), and the few
  built-in operations the components call are written out below.
\<close>

text \<open>
  \<^verbatim>\<open>s.split(c)\<close> for a one-character separator: the pieces between the separators,
  in order. The result is never empty: \<^verbatim>\<open>"".split("_")\<close> is \<^verbatim>\<open>[""]\<close>.
\<close>

fun js_split :: "char \<Rightarrow> string \<Rightarrow> string list" where
  "js_split c [] = [[]]"
| "js_split c (x # xs) =
     (if x = c then [] # js_split c xs
      else (case js_split c xs of
              [] \<Rightarrow> [[x]]
            | p # ps \<Rightarrow> (x # p) # ps))"

text \<open>
  The values \<^verbatim>\<open>parseInt\<close> returns: an integer or \<^verbatim>\<open>NaN\<close>. Integers are kept exact;
  the host rounds those beyond \<open>2^53\<close> to the nearest double, which no identifier
  of the backend reaches.
\<close>

datatype number = NaN | Num int

definition is_space :: "char \<Rightarrow> bool" where
  "is_space c = (c \<in> set [CHR '' '', CHR 0x09, CHR 0x0A, CHR 0x0B, CHR 0x0C, CHR 0x0D])"

text \<open>The value of a character as a digit of the given radix (10 or 16), if it is one.\<close>

definition digit_val :: "nat \<Rightarrow> char \<Rightarrow> nat option" where
  "digit_val radix c =
     (let k = of_char c :: nat;
          v = (if 48 \<le> k \<and> k \<le> 57 then Some (k - 48)
               else if 97 \<le> k \<and> k \<le> 102 then Some (k - 87)
               else if 65 \<le> k \<and> k \<le> 70 then Some (k - 55)
               else None)
      in case v of None \<Rightarrow> None | Some d \<Rightarrow> if d < radix then Some d else None)"

text \<open>
  The longest prefix of digits, read in the radix: \<open>None\<close> when the text does not
  start with a digit, otherwise the value read so far.
\<close>

fun read_digits :: "nat \<Rightarrow> nat option \<Rightarrow> string \<Rightarrow> nat option" where
  "read_digits radix acc [] = acc"
| "read_digits radix acc (c # cs) =
     (case digit_val radix c of
        None \<Rightarrow> acc
      | Some d \<Rightarrow>
          read_digits radix (Some ((case acc of None \<Rightarrow> 0 | Some a \<Rightarrow> a) * radix + d)) cs)"

text \<open>
  \<^verbatim>\<open>parseInt(s)\<close> with no radix argument: leading white space is skipped (the ASCII
  white space here; the host also skips the white space beyond ASCII), one sign is
  read, a \<^verbatim>\<open>0x\<close> or \<^verbatim>\<open>0X\<close> prefix selects radix 16, and the longest digit prefix
  is the value; with no digit the result is \<^verbatim>\<open>NaN\<close>.
\<close>

definition parseInt :: "string \<Rightarrow> number" where
  "parseInt s =
     (let t = dropWhile is_space s;
          (neg, u) = (case t of
                        c # r \<Rightarrow> if c = CHR ''-'' then (True, r)
                                 else if c = CHR ''+'' then (False, r)
                                 else (False, t)
                      | [] \<Rightarrow> (False, t));
          (radix, v) = (case u of
                          a # b # r \<Rightarrow>
                            if a = CHR ''0'' \<and> (b = CHR ''x'' \<or> b = CHR ''X'')
                            then (16, r) else (10, u)
                        | _ \<Rightarrow> (10, u))
      in case read_digits radix None v of
           None \<Rightarrow> NaN
         | Some n \<Rightarrow> Num (if neg then - int n else int n))"

text \<open>Subtraction and strict equality on these numbers: \<^verbatim>\<open>NaN\<close> absorbs, and is equal to nothing.\<close>

fun js_sub :: "number \<Rightarrow> number \<Rightarrow> number" where
  "js_sub (Num a) (Num b) = Num (a - b)"
| "js_sub _ _ = NaN"

fun strict_eq :: "number \<Rightarrow> number \<Rightarrow> bool" where
  "strict_eq (Num a) (Num b) = (a = b)"
| "strict_eq _ _ = False"

text \<open>
  \<^verbatim>\<open>Array.prototype.sort(cmp)\<close>: the element \<open>x\<close> goes after \<open>y\<close> only when
  \<open>cmp x y\<close> is positive; a comparator result of \<^verbatim>\<open>NaN\<close> counts as zero. The sort is
  stable. For a consistent comparator (no \<^verbatim>\<open>NaN\<close> among the keys) this is the order
  every engine returns. For an inconsistent one the language leaves the order to the
  engine, which still returns a permutation of the array; the insertion from the
  right below is then one such order. It leaves an array as it is when no element
  compares greater than its right neighbour (\<open>js_sort_unchanged\<close> below), as does an
  engine that starts by looking for an ascending run; the statements about \<^verbatim>\<open>NaN\<close>
  keys are made on such arrays only.
\<close>

fun is_positive :: "number \<Rightarrow> bool" where
  "is_positive (Num v) = (0 < v)"
| "is_positive NaN = False"

fun js_insert :: "('a \<Rightarrow> 'a \<Rightarrow> number) \<Rightarrow> 'a \<Rightarrow> 'a list \<Rightarrow> 'a list" where
  "js_insert cmp x [] = [x]"
| "js_insert cmp x (y # ys) =
     (if is_positive (cmp x y) then y # js_insert cmp x ys else x # y # ys)"

definition js_sort :: "('a \<Rightarrow> 'a \<Rightarrow> number) \<Rightarrow> 'a list \<Rightarrow> 'a list" where
  "js_sort cmp xs = foldr (js_insert cmp) xs []"

text \<open>
  \<^verbatim>\<open>Array.from(new Set(xs))\<close>: the distinct values, each at its first occurrence.
  A \<^verbatim>\<open>Set\<close> holds at most one \<^verbatim>\<open>NaN\<close>, so membership is plain equality here.
\<close>

fun array_from_set :: "'a list \<Rightarrow> 'a list \<Rightarrow> 'a list" where
  "array_from_set seen [] = []"
| "array_from_set seen (x # xs) =
     (if x \<in> set seen then array_from_set seen xs
      else x # array_from_set (x # seen) xs)"

section \<open>Double-precision numbers\<close>

text \<open>
  Playback positions and the word-error rate are doubles. \<open>Finite m e\<close> is the value
  \<open>m * 2^e\<close>, kept in lowest terms (\<open>m\<close> odd, or \<open>Finite 0 0\<close> for zero, the sign
  of zero not told apart), so that equal values are equal terms.
\<close>

datatype float64 = Finite int int | PosInfinity | NegInfinity | NotANumber

text \<open>The number of binary digits of a positive integer.\<close>

function bit_length :: "int \<Rightarrow> nat" where
  "bit_length n = (if n \<le> 0 then 0 else Suc (bit_length (n div 2)))"
  by pat_completeness auto
termination
  by (relation "measure nat") auto

declare bit_length.simps [simp del]

function trim_zeros :: "int \<Rightarrow> int \<Rightarrow> int \<times> int" where
  "trim_zeros m e =
     (if m = 0 then (0, 0)
      else if even m then trim_zeros (m div 2) (e + 1)
      else (m, e))"
  by pat_completeness auto
termination
  by (relation "measure (\<lambda>(m, e). nat \<bar>m\<bar>)") (auto elim!: evenE)

declare trim_zeros.simps [simp del]

definition infinity_of :: "bool \<Rightarrow> float64" where
  "infinity_of negative = (if negative then NegInfinity else PosInfinity)"

text \<open>
  Rounding of the exact value \<open>M * 2^E\<close> to the nearest double, ties to the even
  mantissa: 53 bits of mantissa, the exponent of the last place not below \<open>-1074\<close>,
  and infinity from \<open>2^1024\<close> on.
\<close>

definition round_float64 :: "int \<Rightarrow> int \<Rightarrow> float64" where
  "round_float64 M E =
     (if M = 0 then Finite 0 0
      else
        let a = \<bar>M\<bar>;
            L = int (bit_length a);
            e' = max (E + L - 53) (- 1074)
        in if e' \<le> E then
             (if E + L > 1024 then infinity_of (M < 0)
              else (case trim_zeros M E of (m, e) \<Rightarrow> Finite m e))
           else
             let s = nat (e' - E);
                 q = a div 2 ^ s;
                 r = a mod 2 ^ s;
                 half = 2 ^ (s - 1);
                 q' = (if r > half \<or> (r = half \<and> odd q) then q + 1 else q)
             in if int (bit_length q') + e' > 1024 then infinity_of (M < 0)
                else (case trim_zeros ((if M < 0 then - 1 else 1) * q') e' of
                        (m, e) \<Rightarrow> Finite m e))"

definition float64_of_int :: "int \<Rightarrow> float64" where
  "float64_of_int n = round_float64 n 0"

fun is_negative :: "float64 \<Rightarrow> bool" where
  "is_negative (Finite m e) = (m < 0)"
| "is_negative NegInfinity = True"
| "is_negative _ = False"

text \<open>The product \<^verbatim>\<open>a * b\<close> of two doubles.\<close>

fun js_mul :: "float64 \<Rightarrow> float64 \<Rightarrow> float64" where
  "js_mul NotANumber _ = NotANumber"
| "js_mul _ NotANumber = NotANumber"
| "js_mul (Finite m1 e1) (Finite m2 e2) = round_float64 (m1 * m2) (e1 + e2)"
| "js_mul (Finite m e) b =
     (if m = 0 then NotANumber else infinity_of (is_negative (Finite m e) \<noteq> is_negative b))"
| "js_mul a (Finite m e) =
     (if m = 0 then NotANumber else infinity_of (is_negative a \<noteq> is_negative (Finite m e)))"
| "js_mul a b = infinity_of (is_negative a \<noteq> is_negative b)"

text \<open>The rational value of a finite double.\<close>

fun float64_value :: "float64 \<Rightarrow> rat option" where
  "float64_value (Finite m e) =
     Some (if 0 \<le> e then of_int m * 2 ^ nat e else of_int m / 2 ^ nat (- e))"
| "float64_value _ = None"

text \<open>A counter as the decimal text a template literal prints.\<close>

definition digit_char :: "nat \<Rightarrow> char" where
  "digit_char d = ''0123456789'' ! d"

function show_nat :: "nat \<Rightarrow> string" where
  "show_nat n = (if n < 10 then [digit_char n] else show_nat (n div 10) @ [digit_char (n mod 10)])"
  by pat_completeness auto
termination
  by (relation "measure id") auto

declare show_nat.simps [simp del]

section \<open>The data model\<close>

text \<open>The interface \<^verbatim>\<open>Ayah\<close> of \<^verbatim>\<open>App.tsx\<close>; a field typed \<^verbatim>\<open>T | null\<close> is an option.\<close>

record Ayah =
  ayah_id :: string
  combined_url :: string
  arabic_url :: "string option"
  english_url :: "string option"
  source_translation :: "string option"
  english_transcription :: "string option"
  matches :: "bool option"
  wer :: "float64 option"
  forced_approved :: "bool option"

definition API_BASE_URL :: string where
  "API_BASE_URL = ''http://localhost:8000''"

text \<open>
  What a rejected promise or a \<^verbatim>\<open>throw\<close> carries: an \<^verbatim>\<open>Error\<close> with its message, or
  any other value. \<open>message_of\<close> is the expression
  \<^verbatim>\<open>err instanceof Error ? err.message : "An error occurred"\<close> of the handlers.
\<close>

datatype thrown = Error string | NonError

fun message_of :: "thrown \<Rightarrow> string" where
  "message_of (Error m) = m"
| "message_of NonError = ''An error occurred''"

text \<open>
  A response of \<^verbatim>\<open>fetch\<close>: the \<^verbatim>\<open>ok\<close> flag (a 2xx status), the status text, and
  what \<^verbatim>\<open>response.json()\<close> resolves to or rejects with. The call itself can reject
  (a network error), so a call's outcome is \<open>thrown + response\<close>.
\<close>

record 'a response =
  ok :: bool
  statusText :: string
  json :: "thrown + 'a"

section \<open>The list state: \<^verbatim>\<open>useAyahs\<close>\<close>

record ayahs_state =
  ayahs :: "Ayah list"
  isLoading :: bool
  error :: "string option"

definition initial_state :: ayahs_state where
  "initial_state = \<lparr>ayahs = [], isLoading = True, error = None\<rparr>"

text \<open>The calls of the three state setters, in the order \<^verbatim>\<open>fetchAyahs\<close> makes them.\<close>

datatype setter = SetAyahs "Ayah list" | SetIsLoading bool | SetError "string option"

fun apply_setter :: "ayahs_state \<Rightarrow> setter \<Rightarrow> ayahs_state" where
  "apply_setter st (SetAyahs d) = st\<lparr>ayahs := d\<rparr>"
| "apply_setter st (SetIsLoading b) = st\<lparr>isLoading := b\<rparr>"
| "apply_setter st (SetError e) = st\<lparr>error := e\<rparr>"

definition run_setters :: "ayahs_state \<Rightarrow> setter list \<Rightarrow> ayahs_state" where
  "run_setters st cs = foldl apply_setter st cs"

text \<open>
  \<^verbatim>\<open>fetchAyahs\<close>, lines 22-38 of \<^verbatim>\<open>App.tsx\<close> (and 106-122 of the later revision kept in
  \<^verbatim>\<open>LoadingButton.tsx\<close>). The first argument is the \<^verbatim>\<open>ayahs\<close> array the callback's
  closure holds, the second the outcome of the \<^verbatim>\<open>GET /ayahs\<close> call.
\<close>

definition fetchAyahs :: "Ayah list \<Rightarrow> thrown + (Ayah list) response \<Rightarrow> setter list" where
  "fetchAyahs closure_ayahs outcome =
     (if length closure_ayahs = 0 then [SetIsLoading True] else []) @
     (case outcome of
        Inl err \<Rightarrow> [SetError (Some (message_of err))]
      | Inr resp \<Rightarrow>
          if \<not> ok resp then [SetError (Some (message_of (Error ''Failed to fetch ayahs'')))]
          else (case json resp of
                  Inl err \<Rightarrow> [SetError (Some (message_of err))]
                | Inr data \<Rightarrow> [SetAyahs data])) @
     [SetIsLoading False]"

text \<open>
  The two revisions differ in the dependency list of \<^verbatim>\<open>React.useCallback\<close>. With
  \<^verbatim>\<open>[]\<close> (line 38 of \<^verbatim>\<open>App.tsx\<close>) the callback of the first render is kept for ever, and
  its closure holds the initial state \<^verbatim>\<open>[]\<close>. With \<^verbatim>\<open>[ayahs.length]\<close> (line 122 of the
  later revision) the callback is made anew whenever the length changes, so the
  callback of the current render sees the current length.
\<close>

definition refetch_deps_empty :: "ayahs_state \<Rightarrow> thrown + (Ayah list) response \<Rightarrow> setter list" where
  "refetch_deps_empty st outcome = fetchAyahs (ayahs initial_state) outcome"

definition refetch_deps_length :: "ayahs_state \<Rightarrow> thrown + (Ayah list) response \<Rightarrow> setter list" where
  "refetch_deps_length st outcome = fetchAyahs (ayahs st) outcome"

section \<open>Surah list, selection and the table rows: \<^verbatim>\<open>App\<close>\<close>

text \<open>\<^verbatim>\<open>parts[0]\<close> of a split; an array with no element would give \<^verbatim>\<open>parseInt(undefined)\<close>.\<close>

definition getSurahNumber :: "string \<Rightarrow> number" where
  "getSurahNumber ayahId =
     (case js_split (CHR ''_'') ayahId of [] \<Rightarrow> NaN | p # _ \<Rightarrow> parseInt p)"

record parsed_id =
  surah :: number
  ayah :: number

definition parseAyahId :: "string \<Rightarrow> parsed_id" where
  "parseAyahId ayahId =
     (let parts = js_split (CHR ''_'') ayahId
      in \<lparr>surah = (case parts of [] \<Rightarrow> NaN | p # _ \<Rightarrow> parseInt p),
          ayah = (if length parts > 1 then parseInt (parts ! 1) else Num 0)\<rparr>)"

text \<open>
  \<^verbatim>\<open>Array.from(new Set(ayahs.map((ayah) => getSurahNumber(ayah.id)))).sort((a, b) => a - b)\<close>
\<close>

definition surahNumbers :: "Ayah list \<Rightarrow> number list" where
  "surahNumbers as =
     js_sort js_sub (array_from_set [] (map (\<lambda>a. getSurahNumber (ayah_id a)) as))"

text \<open>
  The effect that sets the initial surah: the new value of \<^verbatim>\<open>selectedSurah\<close> after
  \<^verbatim>\<open>if (surahNumbers.length > 0 && selectedSurah === null) setSelectedSurah(surahNumbers[0])\<close>.
\<close>

definition set_initial_surah :: "number list \<Rightarrow> number option \<Rightarrow> number option" where
  "set_initial_surah ns selectedSurah =
     (if length ns > 0 \<and> selectedSurah = None
      then (case ns of [] \<Rightarrow> selectedSurah | n # _ \<Rightarrow> Some n)
      else selectedSurah)"

text \<open>The comparator of the row sort, and the rows handed to the table.\<close>

definition compare_rows :: "Ayah \<Rightarrow> Ayah \<Rightarrow> number" where
  "compare_rows a b =
     (let idA = parseAyahId (ayah_id a); idB = parseAyahId (ayah_id b)
      in if \<not> strict_eq (surah idA) (surah idB) then js_sub (surah idA) (surah idB)
         else js_sub (ayah idA) (ayah idB))"

definition filteredAyahs :: "Ayah list \<Rightarrow> number \<Rightarrow> Ayah list" where
  "filteredAyahs as selectedSurah =
     js_sort compare_rows
       (filter (\<lambda>a. strict_eq (getSurahNumber (ayah_id a)) selectedSurah) as)"

text \<open>
  What \<^verbatim>\<open>App\<close> returns: nothing until a surah is selected, the loading page, the
  error page (an empty error text is falsy and shows no error page), or the selector
  and the table with its rows.
\<close>

datatype view = Nothing | LoadingPage | ErrorPage string | Table "number list" number "Ayah list"

definition App :: "ayahs_state \<Rightarrow> number option \<Rightarrow> view" where
  "App st selectedSurah =
     (case selectedSurah of
        None \<Rightarrow> Nothing
      | Some s \<Rightarrow>
          if isLoading st then LoadingPage
          else if error st \<noteq> None \<and> error st \<noteq> Some [] then ErrorPage (the (error st))
          else Table (surahNumbers (ayahs st)) s (filteredAyahs (ayahs st) s))"

section \<open>Audio elements and the version counters\<close>

text \<open>
  \<^verbatim>\<open>AudioPlayer\<close> of \<^verbatim>\<open>App.tsx\<close> (lines 56-62) passes its \<^verbatim>\<open>src\<close> on unchanged. The
  later revision (lines 140-157 of \<^verbatim>\<open>LoadingButton.tsx\<close>) reads the counters of
  \<^verbatim>\<open>splitAyahsAtom\<close>, an object from identifiers to numbers, under the key
  \<^verbatim>\<open>src.split("/").pop()?.split(".")[0]\<close>. Both return the \<^verbatim>\<open>src\<close> attribute of the
  audio element.
\<close>

definition AudioPlayer_plain :: "string \<Rightarrow> string" where
  "AudioPlayer_plain src = src"

definition url_key :: "string \<Rightarrow> string option" where
  "url_key src =
     (case rev (js_split (CHR ''/'') src) of
        [] \<Rightarrow> None
      | seg # _ \<Rightarrow> (case js_split (CHR ''.'') seg of [] \<Rightarrow> None | p # _ \<Rightarrow> Some p))"

definition AudioPlayer :: "(string \<rightharpoonup> nat) \<Rightarrow> string \<Rightarrow> string" where
  "AudioPlayer splitAyahs src =
     (let ayahId = url_key src;
          version = (case ayahId of
                       None \<Rightarrow> 0
                     | Some k \<Rightarrow> if k \<noteq> [] then (case splitAyahs k of None \<Rightarrow> 0 | Some v \<Rightarrow> v) else 0)
      in src @ ''?v='' @ show_nat version)"

text \<open>
  The three audio cells of a row: \<^verbatim>\<open>{ayah.combined_url && (<AudioPlayer src=... />)}\<close>;
  a null or empty URL renders no player.
\<close>

definition audio_cell :: "(string \<Rightarrow> string) \<Rightarrow> string option \<Rightarrow> string option" where
  "audio_cell player url =
     (case url of None \<Rightarrow> None | Some u \<Rightarrow> if u \<noteq> [] then Some (player u) else None)"

definition audio_cells :: "(string \<Rightarrow> string) \<Rightarrow> Ayah \<Rightarrow> string option list" where
  "audio_cells player a =
     [audio_cell player (Some (combined_url a)),
      audio_cell player (arabic_url a),
      audio_cell player (english_url a)]"

text \<open>
  Modelled from the spec: the module \<^verbatim>\<open>stores/audioCache\<close> that declares
  \<^verbatim>\<open>splitAyahsAtom\<close> and increments its counters is not among the sources. By section
  4.1 of the specification, \<open>versionOf\<close> returns the current counter (0 if unseen) and
  \<open>bump\<close> increments the counter of one identifier by 1.
\<close>

definition versionOf :: "(string \<rightharpoonup> nat) \<Rightarrow> string \<Rightarrow> nat" where
  "versionOf cache i = (case cache i of None \<Rightarrow> 0 | Some v \<Rightarrow> v)"

definition bump :: "(string \<rightharpoonup> nat) \<Rightarrow> string \<Rightarrow> (string \<rightharpoonup> nat)" where
  "bump cache i = cache(i \<mapsto> versionOf cache i + 1)"

section \<open>The actions cell\<close>

datatype button = Edit | AutoSplit | Approve

text \<open>Lines 239-277 of \<^verbatim>\<open>App.tsx\<close>: the buttons of a row, in the order they are rendered.\<close>

definition actions_App :: "Ayah \<Rightarrow> button list" where
  "actions_App a =
     (if matches a \<noteq> None then [Edit] else []) @
     [AutoSplit] @
     (if matches a \<noteq> None \<and> matches a \<noteq> Some True then [Approve] else [])"

text \<open>Lines 347-384 of the later revision, the one with the edit modal.\<close>

definition actions :: "Ayah \<Rightarrow> button list" where
  "actions a =
     (if matches a \<noteq> None \<and> matches a \<noteq> Some True then [Edit] else []) @
     (if matches a = None then [AutoSplit] else []) @
     (if matches a \<noteq> None \<and> matches a \<noteq> Some True then [Approve] else [])"

section \<open>Handlers: the loading button, the split modal, the push listener\<close>

text \<open>
  What a handler does to the outside, in order: a POST with its URL and the
  \<^verbatim>\<open>split_time_ms\<close> of its body (if it has a body), a call of \<^verbatim>\<open>refetch\<close>
  (\<^verbatim>\<open>onRefresh\<close>), a call of the modal's \<^verbatim>\<open>onClose\<close>, an \<^verbatim>\<open>alert\<close>, the button's own
  loading flag, a \<^verbatim>\<open>console.error\<close>. An asynchronous handler is its result (rejected or
  fulfilled) and these effects.
\<close>

datatype effect =
    Post string "float64 option"
  | Refresh
  | Close
  | Alert string
  | ButtonLoading bool
  | ConsoleError

type_synonym run = "(thrown + unit) \<times> effect list"

text \<open>\<^verbatim>\<open>handleClick\<close> of \<^verbatim>\<open>LoadingButton\<close>, around the run of its \<^verbatim>\<open>onClick\<close>.\<close>

definition handleClick :: "run \<Rightarrow> effect list" where
  "handleClick onClick =
     [ButtonLoading True] @ snd onClick @
     (case fst onClick of Inl err \<Rightarrow> [Alert (message_of err)] | Inr _ \<Rightarrow> []) @
     [ButtonLoading False]"

text \<open>\<^verbatim>\<open>handleSplit\<close> of \<^verbatim>\<open>EditAyahModal\<close> (lines 24-29).\<close>

definition handleSplit :: "float64 option \<Rightarrow> (float64 \<Rightarrow> run) \<Rightarrow> run" where
  "handleSplit currentTime onSplit =
     (case currentTime of
        None \<Rightarrow> (Inr (), [])
      | Some t \<Rightarrow>
          (case onSplit (js_mul t (float64_of_int 1000)) of
             (Inl err, es) \<Rightarrow> (Inl err, es)
           | (Inr _, es) \<Rightarrow> (Inr (), es @ [Close])))"

text \<open>
  \<^verbatim>\<open>handleSplitAtTime\<close> of \<^verbatim>\<open>AyahTable\<close> (lines 239-258 of the later revision); the
  second argument is the outcome of its POST. \<^verbatim>\<open>onRefresh\<close> is \<^verbatim>\<open>fetchAyahs\<close>, which
  catches every error, so awaiting it never rejects.
\<close>

definition handleSplitAtTime :: "Ayah option \<Rightarrow> thrown + unit response \<Rightarrow> float64 \<Rightarrow> run" where
  "handleSplitAtTime editingAyah outcome time =
     (case editingAyah of
        None \<Rightarrow> (Inr (), [])
      | Some a \<Rightarrow>
          (let call = Post (API_BASE_URL @ ''/split_custom/'' @ ayah_id a) (Some time)
           in case outcome of
                Inl err \<Rightarrow> (Inl err, [call])
              | Inr resp \<Rightarrow>
                  if \<not> ok resp
                  then (Inl (Error (''Failed to split ayah: '' @ statusText resp)), [call])
                  else (Inr (), [call, Refresh])))"

text \<open>
  A click on the modal's split button: the modal is rendered with
  \<^verbatim>\<open>onSplit={handleSplitAtTime}\<close>, and its button is a \<^verbatim>\<open>LoadingButton\<close> with
  \<^verbatim>\<open>onClick={handleSplit}\<close>.
\<close>

definition split_click :: "Ayah option \<Rightarrow> float64 option \<Rightarrow> thrown + unit response \<Rightarrow> effect list" where
  "split_click editingAyah currentTime outcome =
     handleClick (handleSplit currentTime (handleSplitAtTime editingAyah outcome))"

fun is_post :: "effect \<Rightarrow> bool" where
  "is_post (Post _ _) = True"
| "is_post _ = False"







section \<open>Vocabulary of the statements\<close>

text \<open>The integer a number stands for, when it is not \<^verbatim>\<open>NaN\<close>.\<close>

fun int_of :: "number \<Rightarrow> int" where
  "int_of (Num n) = n"
| "int_of NaN = 0"

definition surah_int :: "Ayah \<Rightarrow> int" where
  "surah_int a = int_of (getSurahNumber (ayah_id a))"

definition ayah_int :: "Ayah \<Rightarrow> int" where
  "ayah_int a = int_of (ayah (parseAyahId (ayah_id a)))"

text \<open>No element of the list compares greater than its right neighbour.\<close>

fun no_descent :: "('a \<Rightarrow> 'a \<Rightarrow> number) \<Rightarrow> 'a list \<Rightarrow> bool" where
  "no_descent cmp (x # y # ys) = (\<not> is_positive (cmp x y) \<and> no_descent cmp (y # ys))"
| "no_descent cmp _ = True"

text \<open>An item as the backend lists it, for the examples: its identifier and match flag.\<close>

definition example_ayah :: "string \<Rightarrow> bool option \<Rightarrow> Ayah" where
  "example_ayah i m =
     \<lparr>ayah_id = i,
      combined_url = ''http://localhost:8000/audio/'' @ i @ ''.mp3'',
      arabic_url = Some (''http://localhost:8000/audio/'' @ i @ ''_arabic.mp3''),
      english_url = None,
      source_translation = None,
      english_transcription = None,
      matches = m,
      wer = None,
      forced_approved = None\<rparr>"

text \<open>
  A loaded list state with one row, and a response with a status outside 2xx.
\<close>

definition loaded_state :: ayahs_state where
  "loaded_state = \<lparr>ayahs = [example_ayah ''2_5'' None], isLoading = False, error = None\<rparr>"

definition failed_response :: "(Ayah list) response" where
  "failed_response = \<lparr>ok = False, statusText = ''Internal Server Error'', json = Inl NonError\<rparr>"



text \<open>
  The double nearest to 12.345: doubles between 8 and 16 are the multiples of
  \<open>2^-49\<close>, and this one lies within \<open>2^-50\<close> of 12.345.
\<close>

definition seconds_12_345 :: float64 where
  "seconds_12_345 = Finite 6949617174986097 (- 49)"

section \<open>Properties\<close>

lemma js_split_nonempty: "js_split c s \<noteq> []"
  by (induction s) (auto split: list.splits)

subsection \<open>Sorting with a numeric comparator\<close>

lemma js_insert_eq_insort:
  "(\<And>y. y \<in> set ys \<Longrightarrow> is_positive (cmp x y) = (f y < f x)) \<Longrightarrow>
     js_insert cmp x ys = insort_key f x ys"
  by (induction ys) (auto simp: not_less)

lemma js_sort_eq_sort_key:
  "(\<And>x y. x \<in> set xs \<Longrightarrow> y \<in> set xs \<Longrightarrow> is_positive (cmp x y) = (f y < f x)) \<Longrightarrow>
     js_sort cmp xs = sort_key (f :: 'a \<Rightarrow> int) xs"
proof (induction xs)
  case Nil
  then show ?case by (simp add: js_sort_def)
next
  case (Cons x xs)
  have ih: "js_sort cmp xs = sort_key f xs"
    using Cons by simp
  have "js_sort cmp (x # xs) = js_insert cmp x (js_sort cmp xs)"
    by (simp add: js_sort_def)
  also have "\<dots> = js_insert cmp x (sort_key f xs)"
    by (simp add: ih)
  also have "\<dots> = insort_key f x (sort_key f xs)"
    by (rule js_insert_eq_insort) (simp add: Cons.prems)
  finally show ?case by (simp add: sort_key_def)
qed

lemma set_array_from_set: "set (array_from_set seen xs) = set xs - set seen"
  by (induction seen xs rule: array_from_set.induct) auto

lemma distinct_array_from_set: "distinct (array_from_set seen xs)"
  by (induction seen xs rule: array_from_set.induct) (auto simp: set_array_from_set)

lemma mset_js_insert: "mset (js_insert cmp x ys) = add_mset x (mset ys)"
  by (induction ys) simp_all

lemma mset_js_sort: "mset (js_sort cmp xs) = mset xs"
  by (induction xs) (simp_all add: js_sort_def mset_js_insert)

lemma set_js_sort: "set (js_sort cmp xs) = set xs"
  by (metis mset_js_sort set_mset_mset)

lemma distinct_js_sort: "distinct (js_sort cmp xs) = distinct xs"
  by (metis mset_js_sort mset_eq_imp_distinct_iff)

lemma js_sort_unchanged: "no_descent cmp xs \<Longrightarrow> js_sort cmp xs = xs"
proof (induction cmp xs rule: no_descent.induct)
  case (1 cmp x y ys)
  then have "js_sort cmp (y # ys) = y # ys"
    by simp
  then have "js_sort cmp (x # y # ys) = js_insert cmp x (y # ys)"
    by (simp add: js_sort_def)
  then show ?case
    using 1 by simp
qed (simp_all add: js_sort_def)

lemma is_positive_js_sub:
  "x \<noteq> NaN \<Longrightarrow> y \<noteq> NaN \<Longrightarrow> is_positive (js_sub x y) = (int_of y < int_of x)"
  by (cases x; cases y) auto

lemma Num_int_of: "x \<noteq> NaN \<Longrightarrow> Num (int_of x) = x"
  by (cases x) auto

lemma int_of_inject: "x \<noteq> NaN \<Longrightarrow> y \<noteq> NaN \<Longrightarrow> int_of x = int_of y \<longleftrightarrow> x = y"
  by (cases x; cases y) simp_all

lemma sort_numbers:
  assumes num: "\<forall>x \<in> set ds. x \<noteq> NaN" and dist: "distinct ds"
  shows "js_sort js_sub ds = map Num (sorted_list_of_set (int_of ` set ds))"
proof -
  let ?R = "sort_key int_of ds"
  have eq: "js_sort js_sub ds = ?R"
    by (rule js_sort_eq_sort_key) (simp add: is_positive_js_sub num)
  have inj: "inj_on int_of (set ?R)"
  proof (rule inj_onI)
    fix x y
    assume "x \<in> set ?R" "y \<in> set ?R" "int_of x = int_of y"
    then show "x = y"
      using num by (simp add: int_of_inject)
  qed
  have "distinct (map int_of ?R)"
    using dist inj by (simp add: distinct_map)
  moreover have "sorted (map int_of ?R)"
    by (rule sorted_sort_key)
  ultimately have "sorted_list_of_set (set (map int_of ?R)) = map int_of ?R"
    by (rule sorted_list_of_set.idem_if_sorted_distinct[rotated])
  moreover have "map Num (map int_of ?R) = ?R"
  proof -
    have "map (\<lambda>x. Num (int_of x)) ?R = ?R"
      by (rule map_idI) (simp add: num Num_int_of)
    then show ?thesis by (simp add: comp_def)
  qed
  ultimately show ?thesis
    using eq by simp
qed

lemma surahNumbers_eq:
  assumes "\<forall>a \<in> set as. getSurahNumber (ayah_id a) \<noteq> NaN"
  shows "surahNumbers as = map Num (sorted_list_of_set (surah_int ` set as))"
proof -
  let ?ds = "array_from_set [] (map (\<lambda>a. getSurahNumber (ayah_id a)) as)"
  have s: "set ?ds = (\<lambda>a. getSurahNumber (ayah_id a)) ` set as"
    by (simp add: set_array_from_set)
  have "js_sort js_sub ?ds = map Num (sorted_list_of_set (int_of ` set ?ds))"
    by (rule sort_numbers) (use assms s in \<open>auto simp: distinct_array_from_set\<close>)
  moreover have "int_of ` set ?ds = surah_int ` set as"
    unfolding s by (auto simp: surah_int_def image_image)
  ultimately show ?thesis
    by (simp add: surahNumbers_def)
qed

lemmas parse_simps = getSurahNumber_def parseAyahId_def parseInt_def digit_val_def is_space_def

subsection \<open>The surah list and the initial selection\<close>

lemma surahNumbers_numeric:
  assumes "\<forall>a \<in> set as. getSurahNumber (ayah_id a) \<noteq> NaN"
  shows "surahNumbers as = map Num (sorted_list_of_set (surah_int ` set as))
     \<and> (as \<noteq> [] \<longrightarrow> set_initial_surah (surahNumbers as) None = Some (Num (Min (surah_int ` set as))))"
proof -
  have eq: "surahNumbers as = map Num (sorted_list_of_set (surah_int ` set as))"
    using assms by (rule surahNumbers_eq)
  have "set_initial_surah (surahNumbers as) None = Some (Num (Min (surah_int ` set as)))"
    if "as \<noteq> []"
  proof -
    have "surah_int ` set as \<noteq> {}" "finite (surah_int ` set as)"
      using that by auto
    then have "sorted_list_of_set (surah_int ` set as) =
        Min (surah_int ` set as) # sorted_list_of_set (surah_int ` set as - {Min (surah_int ` set as)})"
      by (simp add: sorted_list_of_set_nonempty)
    then show ?thesis
      unfolding eq by (simp add: set_initial_surah_def)
  qed
  then show ?thesis
    using eq by simp
qed

lemma surahNumbers_members:
  "distinct (surahNumbers as)
   \<and> set (surahNumbers as) = (\<lambda>a. getSurahNumber (ayah_id a)) ` set as"
  by (simp add: surahNumbers_def distinct_js_sort set_js_sort distinct_array_from_set
      set_array_from_set)

lemma set_initial_surah_first:
  "as \<noteq> [] \<Longrightarrow>
     \<exists>n rest. surahNumbers as = n # rest \<and> set_initial_surah (surahNumbers as) None = Some n"
proof -
  assume "as \<noteq> []"
  then have "set (surahNumbers as) \<noteq> {}"
    by (simp add: surahNumbers_members)
  then obtain n rest where "surahNumbers as = n # rest"
    by (cases "surahNumbers as") auto
  then show ?thesis
    by (simp add: set_initial_surah_def)
qed

text \<open>
  C7, as amended. For every fetched collection the derived surah list has no
  duplicates and holds exactly the surah numbers of the items (\<^verbatim>\<open>NaN\<close> for an
  identifier with no leading number); a surah already selected is kept, and with a
  non-empty collection and no surah selected the effect selects the first element of
  the list. When every identifier starts with a number the list is in ascending
  numeric order and the surah selected is the smallest present: for surah numbers
  2, 1, 3 the list is 1, 2, 3 and 1 is selected.
\<close>

theorem surahNumbers_sorted_distinct:
  "distinct (surahNumbers as)
   \<and> set (surahNumbers as) = (\<lambda>a. getSurahNumber (ayah_id a)) ` set as
   \<and> set_initial_surah (surahNumbers as) (Some chosen) = Some chosen
   \<and> (as \<noteq> [] \<longrightarrow>
        (\<exists>n rest. surahNumbers as = n # rest \<and> set_initial_surah (surahNumbers as) None = Some n))
   \<and> ((\<forall>a \<in> set as. getSurahNumber (ayah_id a) \<noteq> NaN) \<longrightarrow>
        surahNumbers as = map Num (sorted_list_of_set (surah_int ` set as))
        \<and> (as \<noteq> [] \<longrightarrow>
             set_initial_surah (surahNumbers as) None = Some (Num (Min (surah_int ` set as)))))"
proof -
  have "set_initial_surah (surahNumbers as) (Some chosen) = Some chosen"
    by (simp add: set_initial_surah_def)
  then show ?thesis
    using surahNumbers_members [of as] set_initial_surah_first [of as] surahNumbers_numeric [of as]
    by blast
qed

theorem surahNumbers_sorted_distinct_witness:
  "surahNumbers (map (\<lambda>i. example_ayah i None) [''2_1'', ''1_7'', ''3_1'', ''2_2'']) = [Num 1, Num 2, Num 3]
   \<and> set_initial_surah
        (surahNumbers (map (\<lambda>i. example_ayah i None) [''2_1'', ''1_7'', ''3_1'', ''2_2''])) None
       = Some (Num 1)"
proof -
  let ?as = "map (\<lambda>i. example_ayah i None) [''2_1'', ''1_7'', ''3_1'', ''2_2'']"
  have h: "\<forall>a \<in> set ?as. getSurahNumber (ayah_id a) \<noteq> NaN"
    by (simp add: example_ayah_def parse_simps)
  have s: "surah_int ` set ?as = set [2, 1, 3]"
    by (auto simp: surah_int_def example_ayah_def parse_simps)
  have ne: "?as \<noteq> []"
    by simp
  note t = surahNumbers_sorted_distinct [of ?as NaN]
  have a: "surahNumbers ?as = map Num (sorted_list_of_set (set [2, 1, 3]))"
    using t h unfolding s by blast
  have b: "set_initial_surah (surahNumbers ?as) None = Some (Num (Min (set [2, 1, 3])))"
    using t h ne unfolding s by blast
  have "sorted_list_of_set (set [2, 1, 3 :: int]) = [1, 2, 3]"
    by (simp add: sorted_list_of_set_sort_remdups)
  moreover have "Min (set [2, 1, 3 :: int]) = 1"
    by simp
  ultimately show ?thesis
    using a b by simp
qed

text \<open>
  The claim as stated fails: with the identifiers \<^verbatim>\<open>3_1\<close>, \<^verbatim>\<open>x_1\<close>, \<^verbatim>\<open>1_1\<close>, \<^verbatim>\<open>2_1\<close>, \<^verbatim>\<open>3_2\<close> no
  element compares greater than its right neighbour, the list stays 3, \<^verbatim>\<open>NaN\<close>, 1, 2,
  and surah 3 is selected while surah 1 is present.
\<close>

theorem surahNumbers_unsorted_counterexample:
  "surahNumbers (map (\<lambda>i. example_ayah i None) [''3_1'', ''x_1'', ''1_1'', ''2_1'', ''3_2''])
     = [Num 3, NaN, Num 1, Num 2]
   \<and> no_descent js_sub [Num 3, NaN, Num 1, Num 2]
   \<and> set_initial_surah
        (surahNumbers (map (\<lambda>i. example_ayah i None) [''3_1'', ''x_1'', ''1_1'', ''2_1'', ''3_2''])) None
       = Some (Num 3)
   \<and> getSurahNumber (ayah_id (example_ayah ''1_1'' None)) = Num 1"
  by (simp add: surahNumbers_def js_sort_def set_initial_surah_def example_ayah_def parse_simps)

subsection \<open>The rows of the table\<close>

lemma strict_eq_Num: "strict_eq x (Num s) \<longleftrightarrow> x = Num s"
  by (cases x) auto

lemma surah_parseAyahId: "surah (parseAyahId i) = getSurahNumber i"
  by (simp add: parseAyahId_def getSurahNumber_def Let_def)

lemma js_split_no_separator: "c \<notin> set s \<Longrightarrow> js_split c s = [s]"
  by (induction s) auto

lemma filteredAyahs_numeric:
  assumes "\<forall>a \<in> set as. getSurahNumber (ayah_id a) = Num s \<longrightarrow> ayah (parseAyahId (ayah_id a)) \<noteq> NaN"
  shows "filteredAyahs as (Num s) =
           sort_key ayah_int (filter (\<lambda>a. getSurahNumber (ayah_id a) = Num s) as)"
proof -
  let ?rows = "filter (\<lambda>a. getSurahNumber (ayah_id a) = Num s) as"
  have cmp: "is_positive (compare_rows a b) = (ayah_int b < ayah_int a)"
    if "a \<in> set ?rows" "b \<in> set ?rows" for a b
  proof -
    have "surah (parseAyahId (ayah_id a)) = Num s" "surah (parseAyahId (ayah_id b)) = Num s"
      using that by (simp_all add: surah_parseAyahId)
    moreover have "ayah (parseAyahId (ayah_id a)) \<noteq> NaN" "ayah (parseAyahId (ayah_id b)) \<noteq> NaN"
      using that assms by simp_all
    ultimately show ?thesis
      by (simp add: compare_rows_def Let_def ayah_int_def is_positive_js_sub)
  qed
  show ?thesis
    unfolding filteredAyahs_def strict_eq_Num
    by (rule js_sort_eq_sort_key) (rule cmp)
qed

lemma mset_filteredAyahs:
  "mset (filteredAyahs as sel) =
     mset (filter (\<lambda>a. strict_eq (getSurahNumber (ayah_id a)) sel) as)"
  by (simp add: filteredAyahs_def mset_js_sort)

lemma strict_eq_NaN: "\<not> strict_eq x NaN"
  by (cases x) auto

text \<open>
  C10, as amended. For every fetched collection and every selected surah the rows of
  the table are exactly the items whose identifier's leading number equals the
  selected surah, each as often as the collection lists it; nothing equals a selected
  \<^verbatim>\<open>NaN\<close>. An identifier with no \<^verbatim>\<open>_\<close> has ayah component 0. The table shows these rows
  once loading is over and no error is set. When the ayah component of every item of
  the selected surah is a number, the rows are in ascending numeric order of that
  component, items with equal components in the order of the collection.
\<close>

theorem filteredAyahs_rows:
  "mset (filteredAyahs as sel) =
     mset (filter (\<lambda>a. strict_eq (getSurahNumber (ayah_id a)) sel) as)
   \<and> set (filteredAyahs as (Num s)) = {a \<in> set as. getSurahNumber (ayah_id a) = Num s}
   \<and> filteredAyahs as NaN = []
   \<and> (\<forall>i. CHR ''_'' \<notin> set i \<longrightarrow> ayah (parseAyahId i) = Num 0)
   \<and> (\<forall>st. ayahs st = as \<and> \<not> isLoading st \<and> error st = None \<longrightarrow>
          App st (Some sel) = Table (surahNumbers as) sel (filteredAyahs as sel))
   \<and> ((\<forall>a \<in> set as. getSurahNumber (ayah_id a) = Num s \<longrightarrow> ayah (parseAyahId (ayah_id a)) \<noteq> NaN) \<longrightarrow>
        filteredAyahs as (Num s) =
          sort_key ayah_int (filter (\<lambda>a. getSurahNumber (ayah_id a) = Num s) as)
        \<and> sorted (map ayah_int (filteredAyahs as (Num s))))"
proof -
  have "set (filteredAyahs as (Num s)) = {a \<in> set as. getSurahNumber (ayah_id a) = Num s}"
    by (simp add: filteredAyahs_def set_js_sort strict_eq_Num)
  moreover have "filteredAyahs as NaN = []"
    by (simp add: filteredAyahs_def strict_eq_NaN js_sort_def)
  moreover have "\<forall>i. CHR ''_'' \<notin> set i \<longrightarrow> ayah (parseAyahId i) = Num 0"
    by (simp add: parseAyahId_def js_split_no_separator)
  moreover have "\<forall>st. ayahs st = as \<and> \<not> isLoading st \<and> error st = None \<longrightarrow>
      App st (Some sel) = Table (surahNumbers as) sel (filteredAyahs as sel)"
    by (simp add: App_def)
  moreover have "filteredAyahs as (Num s) =
          sort_key ayah_int (filter (\<lambda>a. getSurahNumber (ayah_id a) = Num s) as)
        \<and> sorted (map ayah_int (filteredAyahs as (Num s)))"
    if "\<forall>a \<in> set as. getSurahNumber (ayah_id a) = Num s \<longrightarrow> ayah (parseAyahId (ayah_id a)) \<noteq> NaN"
    using filteredAyahs_numeric [OF that] by (simp add: sorted_sort_key)
  ultimately show ?thesis
    using mset_filteredAyahs [of as sel] by blast
qed

theorem filteredAyahs_rows_witness:
  "map ayah_id (filteredAyahs (map (\<lambda>i. example_ayah i None) [''2_10'', ''1_7'', ''2_9'', ''2'', ''2_1'']) (Num 2))
     = [''2'', ''2_1'', ''2_9'', ''2_10'']"
proof -
  let ?as = "map (\<lambda>i. example_ayah i None) [''2_10'', ''1_7'', ''2_9'', ''2'', ''2_1'']"
  have h: "\<forall>a \<in> set ?as. getSurahNumber (ayah_id a) = Num 2 \<longrightarrow> ayah (parseAyahId (ayah_id a)) \<noteq> NaN"
    by (simp add: example_ayah_def parse_simps)
  have "filteredAyahs ?as (Num 2) =
      sort_key ayah_int (filter (\<lambda>a. getSurahNumber (ayah_id a) = Num 2) ?as)"
    using filteredAyahs_rows [of ?as "Num 2" 2] h by blast
  then show ?thesis
    by (simp add: example_ayah_def parse_simps ayah_int_def)
qed

text \<open>
  The claim as stated fails: of the rows \<^verbatim>\<open>2_3\<close>, \<^verbatim>\<open>2_x\<close>, \<^verbatim>\<open>2_1\<close> none compares greater than
  its right neighbour, so they stay in this order, ayah 3 before ayah 1.
\<close>

theorem filteredAyahs_unsorted_counterexample:
  "map ayah_id (filteredAyahs (map (\<lambda>i. example_ayah i None) [''2_3'', ''2_x'', ''2_1'']) (Num 2))
     = [''2_3'', ''2_x'', ''2_1'']
   \<and> no_descent compare_rows (map (\<lambda>i. example_ayah i None) [''2_3'', ''2_x'', ''2_1''])
   \<and> ayah (parseAyahId ''2_3'') = Num 3
   \<and> ayah (parseAyahId ''2_x'') = NaN
   \<and> ayah (parseAyahId ''2_1'') = Num 1"
  by (simp add: filteredAyahs_def js_sort_def compare_rows_def example_ayah_def parse_simps)

subsection \<open>The source of an audio element\<close>

lemma AudioPlayer_version:
  "AudioPlayer cache src =
     src @ ''?v='' @ show_nat (case url_key src of None \<Rightarrow> 0 | Some k \<Rightarrow> if k = [] then 0 else versionOf cache k)"
  by (simp add: AudioPlayer_def versionOf_def Let_def split: option.splits)

lemmas show_simps = show_nat.simps digit_char_def

text \<open>
  C1, as amended. An audio cell with a non-null, non-empty URL holds a player. In the
  revision that reads the version counters its source is the URL followed by
  \<^verbatim>\<open>?v=<n>\<close>, where \<open>n\<close> is the counter stored under the key taken from the URL
  itself (the text after its last \<^verbatim>\<open>/\<close>, up to the first \<^verbatim>\<open>.\<close>), and 0 when that key is
  empty or has no counter; \<open>n\<close> is the counter of the item's identifier whenever that
  key is the identifier. A counter not in the cache counts as 0. In the revision of
  \<^verbatim>\<open>App.tsx\<close> the source is the URL itself.
\<close>

theorem AudioPlayer_src_version:
  "(url \<noteq> [] \<longrightarrow>
      audio_cell (AudioPlayer cache) (Some url) =
        Some (url @ ''?v='' @ show_nat (case url_key url of None \<Rightarrow> 0
                                        | Some k \<Rightarrow> if k = [] then 0 else versionOf cache k)))
   \<and> (url \<noteq> [] \<and> url_key url = Some (ayah_id a) \<and> ayah_id a \<noteq> [] \<longrightarrow>
      audio_cell (AudioPlayer cache) (Some url) =
        Some (url @ ''?v='' @ show_nat (versionOf cache (ayah_id a))))
   \<and> (cache k = None \<longrightarrow> versionOf cache k = 0)
   \<and> audio_cell (AudioPlayer cache) None = None
   \<and> audio_cell (AudioPlayer cache) (Some []) = None
   \<and> (url \<noteq> [] \<longrightarrow> audio_cell AudioPlayer_plain (Some url) = Some url)"
  by (simp add: audio_cell_def AudioPlayer_version AudioPlayer_plain_def versionOf_def)

theorem AudioPlayer_src_version_witness:
  "audio_cells (AudioPlayer [''2_5'' \<mapsto> 3]) (example_ayah ''2_5'' None) ! 0
     = Some ''http://localhost:8000/audio/2_5.mp3?v=3''
   \<and> audio_cells (AudioPlayer Map.empty) (example_ayah ''2_5'' None) ! 0
     = Some ''http://localhost:8000/audio/2_5.mp3?v=0''"
proof -
  let ?u = "''http://localhost:8000/audio/2_5.mp3''"
  have k: "?u \<noteq> [] \<and> url_key ?u = Some (ayah_id (example_ayah ''2_5'' None))
      \<and> ayah_id (example_ayah ''2_5'' None) \<noteq> []"
    by (simp add: url_key_def example_ayah_def)
  have a: "audio_cell (AudioPlayer cache) (Some ?u) =
      Some (?u @ ''?v='' @ show_nat (versionOf cache (ayah_id (example_ayah ''2_5'' None))))" for cache
    using AudioPlayer_src_version [of ?u cache "example_ayah ''2_5'' None"] k by blast
  have v: "versionOf [''2_5'' \<mapsto> 3] ''2_5'' = 3" "versionOf Map.empty ''2_5'' = 0"
    by (simp_all add: versionOf_def)
  have c: "combined_url (example_ayah ''2_5'' None) = ?u" "ayah_id (example_ayah ''2_5'' None) = ''2_5''"
    by (simp_all add: example_ayah_def)
  show ?thesis
    unfolding audio_cells_def c nth_Cons_0 a v by (simp add: show_simps)
qed

text \<open>
  The claim as stated fails: an item \<^verbatim>\<open>2_5\<close> whose counter is 3 and whose Arabic clip
  is \<^verbatim>\<open>2_5_arabic.mp3\<close> gets \<^verbatim>\<open>?v=0\<close>, the counter of the key \<^verbatim>\<open>2_5_arabic\<close>; and the
  player of \<^verbatim>\<open>App.tsx\<close> appends nothing.
\<close>

theorem audio_src_counterexample:
  "arabic_url (example_ayah ''2_5'' None) = Some ''http://localhost:8000/audio/2_5_arabic.mp3''
   \<and> audio_cell (AudioPlayer [''2_5'' \<mapsto> 3]) (arabic_url (example_ayah ''2_5'' None))
       = Some ''http://localhost:8000/audio/2_5_arabic.mp3?v=0''
   \<and> audio_cell (AudioPlayer [''2_5'' \<mapsto> 3]) (arabic_url (example_ayah ''2_5'' None))
       \<noteq> Some (''http://localhost:8000/audio/2_5_arabic.mp3'' @ ''?v='' @
               show_nat (versionOf [''2_5'' \<mapsto> 3] (ayah_id (example_ayah ''2_5'' None))))
   \<and> audio_cell AudioPlayer_plain (Some (combined_url (example_ayah ''2_5'' None)))
       = Some ''http://localhost:8000/audio/2_5.mp3''
   \<and> audio_cell AudioPlayer_plain (Some (combined_url (example_ayah ''2_5'' None)))
       \<noteq> Some (combined_url (example_ayah ''2_5'' None) @ ''?v='' @
               show_nat (versionOf Map.empty (ayah_id (example_ayah ''2_5'' None))))"
  by (simp add: example_ayah_def audio_cell_def AudioPlayer_def AudioPlayer_plain_def url_key_def
      versionOf_def show_simps)

subsection \<open>The actions cell\<close>

text \<open>
  C3, as amended. In the revision with the edit modal the actions cell holds only
  Auto-Split when \<open>matches\<close> is null, Edit and Approve when it is false, and no button
  when it is true. In the revision of \<^verbatim>\<open>App.tsx\<close> Auto-Split is in every row and Edit
  in every row with a non-null \<open>matches\<close>: only Auto-Split for null; Edit, Auto-Split
  and Approve for false; Edit and Auto-Split for true.
\<close>

theorem actions_by_matches:
  "(matches a = None \<longrightarrow> actions a = [AutoSplit] \<and> actions_App a = [AutoSplit])
   \<and> (matches a = Some False \<longrightarrow>
        actions a = [Edit, Approve] \<and> actions_App a = [Edit, AutoSplit, Approve])
   \<and> (matches a = Some True \<longrightarrow> actions a = [] \<and> actions_App a = [Edit, AutoSplit])"
  by (simp add: actions_def actions_App_def)

theorem actions_by_matches_witness:
  "actions (example_ayah ''2_5'' None) = [AutoSplit]
   \<and> actions (example_ayah ''2_5'' (Some False)) = [Edit, Approve]
   \<and> actions (example_ayah ''2_5'' (Some True)) = []
   \<and> actions_App (example_ayah ''2_5'' (Some False)) = [Edit, AutoSplit, Approve]"
proof -
  have m: "matches (example_ayah ''2_5'' x) = x" for x
    by (simp add: example_ayah_def)
  show ?thesis
    using actions_by_matches [of "example_ayah ''2_5'' None"]
      actions_by_matches [of "example_ayah ''2_5'' (Some False)"]
      actions_by_matches [of "example_ayah ''2_5'' (Some True)"]
    unfolding m by blast
qed

text \<open>The claim as stated fails in \<^verbatim>\<open>App.tsx\<close>: a matching row has two buttons.\<close>

theorem actions_App_counterexample:
  "actions_App (example_ayah ''2_5'' (Some True)) = [Edit, AutoSplit]"
  by (simp add: actions_App_def example_ayah_def)

subsection \<open>A failed list fetch\<close>

lemma run_setters_simps:
  "run_setters st [] = st"
  "run_setters st (c # cs) = run_setters (apply_setter st c) cs"
  by (simp_all add: run_setters_def)

lemma run_fetch_rejected:
  "run_setters st (fetchAyahs c (Inl err)) = st\<lparr>error := Some (message_of err), isLoading := False\<rparr>"
  by (simp add: fetchAyahs_def run_setters_simps)

lemma run_fetch_not_ok:
  "\<not> ok resp \<Longrightarrow>
     run_setters st (fetchAyahs c (Inr resp)) = st\<lparr>error := Some ''Failed to fetch ayahs'', isLoading := False\<rparr>"
  by (simp add: fetchAyahs_def run_setters_simps)

lemma run_fetch_bad_json:
  "ok resp \<Longrightarrow> json resp = Inl err \<Longrightarrow>
     run_setters st (fetchAyahs c (Inr resp)) = st\<lparr>error := Some (message_of err), isLoading := False\<rparr>"
  by (simp add: fetchAyahs_def run_setters_simps)

text \<open>
  C4, as amended. A list fetch that fails (the request rejects, the status is not
  2xx, or the body does not parse) leaves the collection unchanged, clears the
  loading flag and sets the error string, on the first load and on a background
  refetch alike: to \<^verbatim>\<open>Failed to fetch ayahs\<close> for a status outside 2xx, otherwise to the
  message of the rejection (\<^verbatim>\<open>An error occurred\<close> when it is not an \<^verbatim>\<open>Error\<close>), which is
  empty only when that message is. The rows stay in the state, but with a non-empty
  error string \<^verbatim>\<open>App\<close> renders the error page in place of the table.
\<close>

theorem fetchAyahs_failure:
  "run_setters st (fetchAyahs c (Inl err)) = st\<lparr>error := Some (message_of err), isLoading := False\<rparr>
   \<and> (\<not> ok resp \<longrightarrow>
        run_setters st (fetchAyahs c (Inr resp))
          = st\<lparr>error := Some ''Failed to fetch ayahs'', isLoading := False\<rparr>)
   \<and> (ok resp \<and> json resp = Inl err \<longrightarrow>
        run_setters st (fetchAyahs c (Inr resp))
          = st\<lparr>error := Some (message_of err), isLoading := False\<rparr>)
   \<and> (SetAyahs d \<in> set (fetchAyahs c outcome) \<longrightarrow>
        (\<exists>r. outcome = Inr r \<and> ok r \<and> json r = Inr d))
   \<and> ayahs (st\<lparr>error := x, isLoading := False\<rparr>) = ayahs st
   \<and> (message_of err = [] \<longleftrightarrow> err = Error [])
   \<and> (e \<noteq> [] \<longrightarrow> App (st\<lparr>error := Some e, isLoading := False\<rparr>) (Some s) = ErrorPage e)"
proof -
  have "message_of err = [] \<longleftrightarrow> err = Error []"
    by (cases err) simp_all
  moreover have "e \<noteq> [] \<longrightarrow> App (st\<lparr>error := Some e, isLoading := False\<rparr>) (Some s) = ErrorPage e"
    by (simp add: App_def)
  moreover have "SetAyahs d \<in> set (fetchAyahs c outcome) \<longrightarrow>
        (\<exists>r. outcome = Inr r \<and> ok r \<and> json r = Inr d)"
    by (auto simp: fetchAyahs_def split: sum.splits if_splits)
  ultimately show ?thesis
    by (simp add: run_fetch_rejected run_fetch_not_ok run_fetch_bad_json)
qed

theorem fetchAyahs_failure_witness:
  "run_setters loaded_state (refetch_deps_length loaded_state (Inr failed_response))
     = \<lparr>ayahs = [example_ayah ''2_5'' None], isLoading = False, error = Some ''Failed to fetch ayahs''\<rparr>
   \<and> run_setters initial_state (refetch_deps_length initial_state (Inl (Error ''Failed to fetch'')))
     = \<lparr>ayahs = [], isLoading = False, error = Some ''Failed to fetch''\<rparr>"
proof -
  have n: "\<not> ok failed_response"
    by (simp add: failed_response_def)
  have a: "run_setters loaded_state (fetchAyahs (ayahs loaded_state) (Inr failed_response))
      = loaded_state\<lparr>error := Some ''Failed to fetch ayahs'', isLoading := False\<rparr>"
    using fetchAyahs_failure [of loaded_state "ayahs loaded_state" NonError failed_response] n
    by blast
  have b: "run_setters initial_state (fetchAyahs (ayahs initial_state) (Inl (Error ''Failed to fetch'')))
      = initial_state\<lparr>error := Some (message_of (Error ''Failed to fetch'')), isLoading := False\<rparr>"
    using fetchAyahs_failure [of initial_state "ayahs initial_state" "Error ''Failed to fetch''"]
    by blast
  show ?thesis
    unfolding refetch_deps_length_def a b by (simp add: loaded_state_def initial_state_def)
qed

text \<open>
  The claim as stated fails: over a loaded collection a refetch answered with a status
  outside 2xx sets the error string, in both revisions, and the page that showed the
  row shows the error.
\<close>

theorem error_set_on_refetch_counterexample:
  "ayahs loaded_state \<noteq> []
   \<and> error loaded_state = None
   \<and> App loaded_state (Some (Num 2)) = Table [Num 2] (Num 2) [example_ayah ''2_5'' None]
   \<and> error (run_setters loaded_state (refetch_deps_length loaded_state (Inr failed_response)))
       = Some ''Failed to fetch ayahs''
   \<and> error (run_setters loaded_state (refetch_deps_empty loaded_state (Inr failed_response)))
       = Some ''Failed to fetch ayahs''
   \<and> App (run_setters loaded_state (refetch_deps_length loaded_state (Inr failed_response))) (Some (Num 2))
       = ErrorPage ''Failed to fetch ayahs''"
  by (simp add: loaded_state_def failed_response_def refetch_deps_length_def refetch_deps_empty_def
      initial_state_def fetchAyahs_def run_setters_simps App_def surahNumbers_def filteredAyahs_def
      js_sort_def example_ayah_def parse_simps)


subsection \<open>The loading flag\<close>

text \<open>
  With the dependency list \<^verbatim>\<open>[ayahs.length]\<close> the flag is set to true exactly when the
  collection is empty.
\<close>

lemma refetch_deps_length_loading:
  "SetIsLoading True \<in> set (refetch_deps_length st outcome) \<longleftrightarrow> ayahs st = []"
  by (auto simp: refetch_deps_length_def fetchAyahs_def split: sum.splits)

text \<open>
  C8 fails in \<^verbatim>\<open>App.tsx\<close>: with the dependency list \<^verbatim>\<open>[]\<close> the closure of
  \<^verbatim>\<open>fetchAyahs\<close> holds the empty initial array for ever, so every call sets the loading
  flag to true first, a background refetch over a loaded collection included.
\<close>

theorem refetch_deps_empty_sets_loading:
  "hd (refetch_deps_empty st outcome) = SetIsLoading True
   \<and> ayahs loaded_state = [example_ayah ''2_5'' None]
   \<and> refetch_deps_empty loaded_state
        (Inr \<lparr>ok = True, statusText = ''OK'', json = Inr [example_ayah ''2_5'' (Some True)]\<rparr>)
       = [SetIsLoading True, SetAyahs [example_ayah ''2_5'' (Some True)], SetIsLoading False]"
  by (simp add: refetch_deps_empty_def fetchAyahs_def initial_state_def loaded_state_def)

subsection \<open>Push messages\<close>









subsection \<open>Confirming a split\<close>

lemmas float_simps = float64_of_int_def round_float64_def bit_length.simps trim_zeros.simps Let_def

lemma float64_of_int_1000: "float64_of_int 1000 = Finite 125 3"
  by (simp add: float_simps)

lemma float64_of_int_12345: "float64_of_int 12345 = Finite 12345 0"
  by (simp add: float_simps)

lemma js_mul_12_345: "js_mul seconds_12_345 (float64_of_int 1000) = Finite 12345 0"
  by (simp add: seconds_12_345_def float_simps)

lemma seconds_12_345_nearest:
  "float64_value seconds_12_345 = Some (6949617174986097 / 2 ^ 49)
   \<and> \<bar>6949617174986097 / 2 ^ 49 - 12345 / 1000\<bar> < (1 / 2 ^ 50 :: rat)"
  by (simp add: seconds_12_345_def)

lemma posts_of_split_click:
  "filter is_post (split_click (Some a) (Some t) outcome)
     = [Post (API_BASE_URL @ ''/split_custom/'' @ ayah_id a) (Some (js_mul t (float64_of_int 1000)))]"
  by (cases outcome)
     (simp_all add: split_click_def handleClick_def handleSplit_def handleSplitAtTime_def Let_def
        split: sum.splits)

text \<open>
  C6. With a recorded position \<open>t\<close>, a click on the split button sends exactly one
  POST, to \<^verbatim>\<open>/split_custom/<id>\<close> of the edited item, whose \<^verbatim>\<open>split_time_ms\<close> is the
  double product \<open>t * 1000\<close>; when the response is ok the list is refetched and the
  modal closed. For the position 12.345 (the double nearest to it) the product is
  the integer 12345.
\<close>

theorem split_submits_position:
  "filter is_post (split_click (Some a) (Some t) outcome)
     = [Post (API_BASE_URL @ ''/split_custom/'' @ ayah_id a) (Some (js_mul t (float64_of_int 1000)))]
   \<and> (ok resp \<longrightarrow>
        split_click (Some a) (Some t) (Inr resp)
          = [ButtonLoading True,
             Post (API_BASE_URL @ ''/split_custom/'' @ ayah_id a) (Some (js_mul t (float64_of_int 1000))),
             Refresh, Close, ButtonLoading False])
   \<and> js_mul seconds_12_345 (float64_of_int 1000) = float64_of_int 12345
   \<and> float64_of_int 12345 = Finite 12345 0
   \<and> float64_value seconds_12_345 = Some (6949617174986097 / 2 ^ 49)
   \<and> \<bar>6949617174986097 / 2 ^ 49 - 12345 / 1000\<bar> < (1 / 2 ^ 50 :: rat)"
proof -
  have "ok resp \<longrightarrow>
        split_click (Some a) (Some t) (Inr resp)
          = [ButtonLoading True,
             Post (API_BASE_URL @ ''/split_custom/'' @ ayah_id a) (Some (js_mul t (float64_of_int 1000))),
             Refresh, Close, ButtonLoading False]"
    by (simp add: split_click_def handleClick_def handleSplit_def handleSplitAtTime_def Let_def)
  then show ?thesis
    using seconds_12_345_nearest
    by (simp only: posts_of_split_click js_mul_12_345 float64_of_int_12345 simp_thms)
qed

theorem split_submits_position_witness:
  "split_click (Some (example_ayah ''2_5'' (Some False))) (Some seconds_12_345)
      (Inr \<lparr>ok = True, statusText = ''OK'', json = Inr ()\<rparr>)
     = [ButtonLoading True, Post ''http://localhost:8000/split_custom/2_5'' (Some (Finite 12345 0)),
        Refresh, Close, ButtonLoading False]"
proof -
  let ?r = "\<lparr>ok = True, statusText = ''OK'', json = Inr ()\<rparr> :: unit response"
  let ?a = "example_ayah ''2_5'' (Some False)"
  have o: "ok ?r"
    by simp
  note t = split_submits_position [of ?a seconds_12_345 "Inr ?r" ?r]
  have a: "split_click (Some ?a) (Some seconds_12_345) (Inr ?r)
          = [ButtonLoading True,
             Post (API_BASE_URL @ ''/split_custom/'' @ ayah_id ?a)
               (Some (js_mul seconds_12_345 (float64_of_int 1000))),
             Refresh, Close, ButtonLoading False]"
    using t o by blast
  have m: "js_mul seconds_12_345 (float64_of_int 1000) = float64_of_int 12345"
    "float64_of_int 12345 = Finite 12345 0"
    using t by blast+
  show ?thesis
    unfolding a m by (simp add: API_BASE_URL_def example_ayah_def)
qed

text \<open>
  C9. With no recorded position (\<^verbatim>\<open>currentTime\<close> is null) \<^verbatim>\<open>handleSplit\<close> fulfils without
  calling \<^verbatim>\<open>onSplit\<close> or \<^verbatim>\<open>onClose\<close>: a click sends no request, does not close the
  modal and raises no alert; only the button's own loading flag goes on and off.
\<close>

theorem handleSplit_without_position:
  "handleSplit None onSplit = (Inr (), [])
   \<and> split_click editingAyah None outcome = [ButtonLoading True, ButtonLoading False]"
  by (simp add: handleSplit_def split_click_def handleClick_def)

subsection \<open>Version counters\<close>

lemma versionOf_bump:
  "versionOf (bump cache j) i = (if i = j then versionOf cache i + 1 else versionOf cache i)"
  by (simp add: versionOf_def bump_def)

lemma versionOf_foldl_bump:
  "versionOf (foldl bump cache ids) i = versionOf cache i + count_list ids i"
  by (induction ids arbitrary: cache) (simp_all add: versionOf_bump)

text \<open>
  C2. After any sequence of \<open>bump\<close> calls, whatever identifiers they are for and in
  whatever order, the counter of an identifier has grown by exactly the number of
  calls made for it: \<open>N\<close> calls for \<open>i\<close>, interleaved at will with calls for others,
  add \<open>N\<close>. Hence a counter never decreases and is never reset, and starting from the
  empty cache it is the number of calls made for the identifier.
\<close>

theorem bump_adds_number_of_calls:
  "versionOf (foldl bump cache ids) i = versionOf cache i + count_list ids i
   \<and> versionOf cache i \<le> versionOf (foldl bump cache ids) i
   \<and> versionOf (foldl bump Map.empty ids) i = count_list ids i"
  by (simp add: versionOf_foldl_bump) (simp add: versionOf_def)

theorem bump_adds_number_of_calls_witness:
  "versionOf (foldl bump [''1_1'' \<mapsto> 4] [''2_5'', ''1_1'', ''2_5'', ''3_2'', ''2_5'']) ''2_5'' = 3
   \<and> versionOf (foldl bump [''1_1'' \<mapsto> 4] [''2_5'', ''1_1'', ''2_5'', ''3_2'', ''2_5'']) ''1_1'' = 5"
proof -
  have a: "versionOf (foldl bump [''1_1'' \<mapsto> 4] [''2_5'', ''1_1'', ''2_5'', ''3_2'', ''2_5'']) ''2_5''
      = versionOf [''1_1'' \<mapsto> 4] ''2_5'' + count_list [''2_5'', ''1_1'', ''2_5'', ''3_2'', ''2_5''] ''2_5''"
    using bump_adds_number_of_calls by (rule conjunct1)
  have b: "versionOf (foldl bump [''1_1'' \<mapsto> 4] [''2_5'', ''1_1'', ''2_5'', ''3_2'', ''2_5'']) ''1_1''
      = versionOf [''1_1'' \<mapsto> 4] ''1_1'' + count_list [''2_5'', ''1_1'', ''2_5'', ''3_2'', ''2_5''] ''1_1''"
    using bump_adds_number_of_calls by (rule conjunct1)
  show ?thesis
    unfolding a b by (simp add: versionOf_def)
qed

end
